theory Spec2Isabelle
  imports Main
begin

section \<open>MAC changer: a shallow embedding of machanger.py\<close>

text \<open>
  The program reads and rewrites the hardware address of a network interface through the
  external command \<open>ifconfig\<close>, keeps the first address it saw for each interface in a
  JSON file, and can generate a random locally-administered address.

  Text is modelled as \<open>string\<close>, every \<open>char\<close> standing for the code point of the
  same number (code points below 256). Python integers are \<open>int\<close>.
\<close>

subsection \<open>Canonical form of a MAC address\<close>

text \<open>
  The pattern \<^verbatim>\<open>^[0-9a-f]{2}(:[0-9a-f]{2}){5}$\<close> of the specification, as a matcher on the
  whole string: two lowercase hex digits, then five times a colon and two lowercase hex
  digits, then the end.
\<close>

definition is_lower_hex :: "char \<Rightarrow> bool" where
  "is_lower_hex c = (c \<in> set ''0123456789abcdef'')"

fun colon_groups :: "nat \<Rightarrow> string \<Rightarrow> bool" where
  "colon_groups 0 s = (s = [])"
| "colon_groups (Suc n) (c # a # b # s) =
     (c = CHR '':'' \<and> is_lower_hex a \<and> is_lower_hex b \<and> colon_groups n s)"
| "colon_groups (Suc n) _ = False"

definition canonical_mac :: "string \<Rightarrow> bool" where
  "canonical_mac s =
     (case s of
        a # b # rest \<Rightarrow> is_lower_hex a \<and> is_lower_hex b \<and> colon_groups 5 rest
      | _ \<Rightarrow> False)"

subsection \<open>Formatting a byte: \<^verbatim>\<open>f"{b:02x}"\<close>\<close>

definition hex_digit :: "nat \<Rightarrow> char" where
  "hex_digit d = ''0123456789abcdef'' ! (d mod 16)"

text \<open>The lowercase hexadecimal digits of a natural number, most significant first.\<close>

fun hex :: "nat \<Rightarrow> string" where
  "hex n = (if n < 16 then [hex_digit n] else hex (n div 16) @ [hex_digit (n mod 16)])"

declare hex.simps [simp del]

text \<open>
  Format specification \<open>02x\<close>: lowercase hexadecimal, padded with zeros to a width of two;
  the sign of a negative number counts for the width and comes before the digits.
\<close>

definition format_02x :: "int \<Rightarrow> string" where
  "format_02x b =
     (if b < 0 then CHR ''-'' # hex (nat (- b))
      else replicate (2 - length (hex (nat b))) CHR ''0'' @ hex (nat b))"

text \<open>\<^verbatim>\<open>':'.join(parts)\<close>\<close>

fun join_colon :: "string list \<Rightarrow> string" where
  "join_colon [] = []"
| "join_colon [p] = p"
| "join_colon (p # ps) = p @ CHR '':'' # join_colon ps"

subsection \<open>The random MAC generator\<close>

text \<open>
  The random source is a tape of the values that successive calls of
  \<^verbatim>\<open>random.randint(0, 255)\<close> return; a call takes the head of the tape.
\<close>

type_synonym tape = "nat \<Rightarrow> int"

definition randint :: "tape \<Rightarrow> int \<times> tape" where
  "randint t = (t 0, \<lambda>i. t (Suc i))"

text \<open>The loop \<^verbatim>\<open>for _ in range(5): mac.append(random.randint(0, 255))\<close>.\<close>

fun append_random :: "nat \<Rightarrow> int list \<Rightarrow> tape \<Rightarrow> int list \<times> tape" where
  "append_random 0 mac t = (mac, t)"
| "append_random (Suc n) mac t =
     (case randint t of (r, t') \<Rightarrow> append_random n (mac @ [r]) t')"

text \<open>The six bytes of the address, before formatting.\<close>

definition random_mac_bytes :: "tape \<Rightarrow> int list \<times> tape" where
  "random_mac_bytes t =
     (case randint t of (r, t') \<Rightarrow>
        (let first_byte = or (and r 0xFE) 0x02
         in append_random 5 [first_byte] t'))"

definition generate_random_mac :: "tape \<Rightarrow> string \<times> tape" where
  "generate_random_mac t =
     (case random_mac_bytes t of (mac, t') \<Rightarrow> (join_colon (map format_02x mac), t'))"

subsection \<open>The world the program runs in\<close>

text \<open>
  Exceptions that can leave a function of the program. Each carries the text that
  \<^verbatim>\<open>str(e)\<close> gives. \<^verbatim>\<open>subprocess.CalledProcessError\<close> is not among them: it is raised by
  \<^verbatim>\<open>check_output\<close> on a non-zero exit status and caught in the same function.
\<close>

datatype exn = OSError string | UnicodeDecodeError string | JSONDecodeError string

fun exn_str :: "exn \<Rightarrow> string" where
  "exn_str (OSError m) = m"
| "exn_str (UnicodeDecodeError m) = m"
| "exn_str (JSONDecodeError m) = m"

text \<open>
  What running the external command gives: it could not be started (\<^verbatim>\<open>OSError\<close>, with its
  message), or it exited with a status and wrote bytes to its standard output, which are
  UTF-8 text or not (then with the message of the decoding error).
\<close>

datatype captured = Text string | Not_utf8 string

datatype proc_result = Not_started string | Exited int captured

text \<open>
  The operating system is a black box: a state of any type \<open>'os\<close> and a function from the
  argument vector and the state to the result and the next state.
\<close>

type_synonym 'os command = "string list \<Rightarrow> 'os \<Rightarrow> proc_result \<times> 'os"

text \<open>
  The file at \<^verbatim>\<open>CONFIG_FILE\<close>: absent, present with contents that \<^verbatim>\<open>json.load\<close> rejects
  (with the message of the parse error), or present with a JSON object from interface
  names to address strings, which is what \<^verbatim>\<open>json.dump\<close> of the program's dictionary
  writes and \<^verbatim>\<open>json.load\<close> reads back. JSON documents of any other shape are outside the
  model, and so are failures of opening, reading and writing the file.
\<close>

datatype config_state =
    Absent
  | Malformed string
  | Record "string \<rightharpoonup> string"

text \<open>
  The state: the operating system, the record file, the lines printed so far, the
  argument vectors of the commands run so far (kept for stating what the program did),
  and the random tape.
\<close>

record 'os world =
  os :: 'os
  config_file :: config_state
  stdout :: "string list"
  commands :: "string list list"
  rng :: tape

definition py_print :: "string \<Rightarrow> 'os world \<Rightarrow> 'os world" where
  "py_print line w = w\<lparr>stdout := stdout w @ [line]\<rparr>"

text \<open>One run of the external command.\<close>

definition run :: "'os command \<Rightarrow> string list \<Rightarrow> 'os world \<Rightarrow> proc_result \<times> 'os world" where
  "run sys argv w =
     (case sys argv (os w) of
        (r, s') \<Rightarrow> (r, w\<lparr>os := s', commands := commands w @ [argv]\<rparr>))"

text \<open>\<^verbatim>\<open>subprocess.call(argv)\<close>: the exit status, whatever it is.\<close>

definition subprocess_call ::
  "'os command \<Rightarrow> string list \<Rightarrow> 'os world \<Rightarrow> (exn + int) \<times> 'os world" where
  "subprocess_call sys argv w =
     (case run sys argv w of
        (Not_started m, w') \<Rightarrow> (Inl (OSError m), w')
      | (Exited status out, w') \<Rightarrow> (Inr status, w'))"

text \<open>Truth value of an optional string: \<^verbatim>\<open>None\<close> and the empty string are false.\<close>

fun truthy :: "string option \<Rightarrow> string option" where
  "truthy None = None"
| "truthy (Some s) = (if s = [] then None else Some s)"

subsection \<open>The MAC reader (lines 12 to 25)\<close>

text \<open>
  \<^verbatim>\<open>re.search(r'ether\s+([0-9a-fA-F:]{17})', text)\<close>. White space is what \<^verbatim>\<open>\s\<close> matches
  in a \<^verbatim>\<open>str\<close> pattern, among the code points below 256. No white space is in the
  class of the group, so the greedy \<^verbatim>\<open>\s+\<close> takes the whole run of white space and
  giving some of it back never helps.
\<close>

definition is_space :: "char \<Rightarrow> bool" where
  "is_space c =
     (c \<in> set [CHR 0x09, CHR 0x0A, CHR 0x0B, CHR 0x0C, CHR 0x0D, CHR 0x1C, CHR 0x1D,
                CHR 0x1E, CHR 0x1F, CHR 0x20, CHR 0x85, CHR 0xA0])"

definition is_mac_char :: "char \<Rightarrow> bool" where
  "is_mac_char c = (c \<in> set ''0123456789abcdefABCDEF:'')"

fun strip_prefix :: "string \<Rightarrow> string \<Rightarrow> string option" where
  "strip_prefix [] s = Some s"
| "strip_prefix (p # ps) [] = None"
| "strip_prefix (p # ps) (c # s) = (if p = c then strip_prefix ps s else None)"

text \<open>The pattern matched at the start of \<open>s\<close>: the group, if it matches.\<close>

definition match_here :: "string \<Rightarrow> string option" where
  "match_here s =
     (case strip_prefix ''ether'' s of
        None \<Rightarrow> None
      | Some r \<Rightarrow>
          (let ws = takeWhile is_space r;
               g = take 17 (dropWhile is_space r)
           in if ws \<noteq> [] \<and> length g = 17 \<and> list_all is_mac_char g then Some g else None))"

text \<open>The search tries every start position from the left and takes the first match.\<close>

fun re_search :: "string \<Rightarrow> string option" where
  "re_search [] = match_here []"
| "re_search (c # s) =
     (case match_here (c # s) of Some g \<Rightarrow> Some g | None \<Rightarrow> re_search s)"

definition get_current_mac ::
  "'os command \<Rightarrow> string \<Rightarrow> 'os world \<Rightarrow> (exn + string option) \<times> 'os world" where
  "get_current_mac sys interface w =
     (case run sys [''ifconfig'', interface] w of
        (Not_started m, w') \<Rightarrow> (Inl (OSError m), w')
      | (Exited status out, w') \<Rightarrow>
          if status \<noteq> 0 then
            (Inr None, py_print (''[!] Error running ifconfig for '' @ interface) w')
          else
            (case out of
               Not_utf8 m \<Rightarrow> (Inl (UnicodeDecodeError m), w')
             | Text ifconfig_output \<Rightarrow>
                 (case re_search ifconfig_output of
                    Some mac_address \<Rightarrow> (Inr (Some mac_address), w')
                  | None \<Rightarrow>
                      (Inr None,
                       py_print (''[!] Could not read MAC address for '' @ interface) w'))))"

subsection \<open>The MAC writer (lines 27 to 51)\<close>

text \<open>The handler \<^verbatim>\<open>except Exception as e\<close>.\<close>

definition change_failed :: "exn \<Rightarrow> 'os world \<Rightarrow> bool \<times> 'os world" where
  "change_failed e w = (False, py_print (''[!] Error changing MAC address: '' @ exn_str e) w)"

definition set_mac_address ::
  "'os command \<Rightarrow> string \<Rightarrow> string \<Rightarrow> 'os world \<Rightarrow> bool \<times> 'os world" where
  "set_mac_address sys interface new_mac w =
     (let w0 = py_print (''[*] Changing MAC address for '' @ interface @ '' to '' @ new_mac) w
      in case subprocess_call sys [''ifconfig'', interface, ''down''] w0 of
           (Inl e, w1) \<Rightarrow> change_failed e w1
         | (Inr _, w1) \<Rightarrow>
        (case subprocess_call sys [''ifconfig'', interface, ''hw'', ''ether'', new_mac] w1 of
           (Inl e, w2) \<Rightarrow> change_failed e w2
         | (Inr _, w2) \<Rightarrow>
        (case subprocess_call sys [''ifconfig'', interface, ''up''] w2 of
           (Inl e, w3) \<Rightarrow> change_failed e w3
         | (Inr _, w3) \<Rightarrow>
        (case get_current_mac sys interface w3 of
           (Inl e, w4) \<Rightarrow> change_failed e w4
         | (Inr current_mac, w4) \<Rightarrow>
             if current_mac = Some new_mac then
               (True, py_print (''[+] MAC address was successfully changed to '' @ new_mac) w4)
             else
               (False, py_print (''[!] Failed to change MAC address to '' @ new_mac) w4)))))"

subsection \<open>The store of original addresses (lines 53 to 77)\<close>

text \<open>
  The dictionary after lines 55 to 60: empty when there is no file, the file's object
  otherwise; a file that does not parse raises.
\<close>

fun load_config :: "config_state \<Rightarrow> exn + (string \<rightharpoonup> string)" where
  "load_config Absent = Inr Map.empty"
| "load_config (Malformed m) = Inl (JSONDecodeError m)"
| "load_config (Record config) = Inr config"

definition save_original_mac ::
  "string \<Rightarrow> string \<Rightarrow> 'os world \<Rightarrow> (exn + unit) \<times> 'os world" where
  "save_original_mac interface mac w =
     (case load_config (config_file w) of
        Inl e \<Rightarrow> (Inl e, w)
      | Inr config \<Rightarrow>
          (case (if config interface = None then
                   (config(interface \<mapsto> mac),
                    py_print (''[*] Original MAC address for '' @ interface @ '' saved: '' @ mac) w)
                 else (config, w)) of
             (config', w') \<Rightarrow> (Inr (), w'\<lparr>config_file := Record config'\<rparr>)))"

text \<open>Reading changes nothing, so the result alone is returned.\<close>

definition get_original_mac :: "string \<Rightarrow> 'os world \<Rightarrow> exn + string option" where
  "get_original_mac interface w =
     (case config_file w of
        Absent \<Rightarrow> Inr None
      | Malformed m \<Rightarrow> Inl (JSONDecodeError m)
      | Record config \<Rightarrow> Inr (config interface))"

subsection \<open>The entry flow (lines 93 to 125)\<close>

text \<open>The parsed command line.\<close>

record args =
  arg_interface :: string
  arg_mac :: "string option"
  arg_restore :: bool
  arg_show :: bool

text \<open>
  Lines 107 to 111: the original address for this run, saved first when none is stored.
\<close>

definition remember_original ::
  "string \<Rightarrow> string \<Rightarrow> 'os world \<Rightarrow> (exn + string) \<times> 'os world" where
  "remember_original interface current_mac w =
     (case get_original_mac interface w of
        Inl e \<Rightarrow> (Inl e, w)
      | Inr original \<Rightarrow>
          (case truthy original of
             Some original_mac \<Rightarrow> (Inr original_mac, w)
           | None \<Rightarrow>
               (case save_original_mac interface current_mac w of
                  (Inl e, w') \<Rightarrow> (Inl e, w')
                | (Inr _, w') \<Rightarrow> (Inr current_mac, w'))))"

text \<open>Lines 113 to 125: the action chosen by the flags.\<close>

definition perform ::
  "'os command \<Rightarrow> args \<Rightarrow> string \<Rightarrow> string \<Rightarrow> 'os world \<Rightarrow> 'os world" where
  "perform sys a current_mac original_mac w =
     (if arg_show a then
        py_print (''Original MAC for '' @ arg_interface a @ '': '' @ original_mac)
          (py_print (''Current MAC for '' @ arg_interface a @ '': '' @ current_mac) w)
      else if arg_restore a then
        snd (set_mac_address sys (arg_interface a) original_mac
               (py_print (''[*] Restoring original MAC address for '' @ arg_interface a) w))
      else
        (case truthy (arg_mac a) of
           Some new_mac \<Rightarrow> snd (set_mac_address sys (arg_interface a) new_mac w)
         | None \<Rightarrow>
             (case generate_random_mac (rng w) of
                (new_mac, t) \<Rightarrow>
                  snd (set_mac_address sys (arg_interface a) new_mac (w\<lparr>rng := t\<rparr>)))))"

definition main :: "'os command \<Rightarrow> args \<Rightarrow> 'os world \<Rightarrow> (exn + unit) \<times> 'os world" where
  "main sys a w =
     (case get_current_mac sys (arg_interface a) w of
        (Inl e, w1) \<Rightarrow> (Inl e, w1)
      | (Inr current, w1) \<Rightarrow>
          (case truthy current of
             None \<Rightarrow>
               (Inr (),
                py_print (''[!] Could not get current MAC address for '' @ arg_interface a) w1)
           | Some current_mac \<Rightarrow>
               (case remember_original (arg_interface a) current_mac w1 of
                  (Inl e, w2) \<Rightarrow> (Inl e, w2)
                | (Inr original_mac, w2) \<Rightarrow>
                    (Inr (), perform sys a current_mac original_mac w2))))"

subsection \<open>A scripted command, for running the program on concrete inputs\<close>

text \<open>
  The state is the list of results still to come; each run of the command takes the next
  one, whatever the arguments.
\<close>

fun scripted :: "(proc_result list) command" where
  "scripted argv [] = (Not_started ''No such file or directory'', [])"
| "scripted argv (r # rs) = (r, rs)"

definition world0 :: "proc_result list \<Rightarrow> config_state \<Rightarrow> (proc_result list) world" where
  "world0 script file =
     \<lparr>os = script, config_file = file, stdout = [], commands = [], rng = (\<lambda>i. 40 * int i + 15)\<rparr>"

text \<open>A world whose record file already holds the original address of \<^verbatim>\<open>eth0\<close>.\<close>

definition recorded :: "(proc_result list) world" where
  "recorded = world0 [] (Record [''eth0'' \<mapsto> ''00:11:22:33:44:55''])"

subsection \<open>Notions for stating what the writer depends on\<close>

text \<open>A run of the command that was started and came back with an exit status.\<close>

fun completed :: "proc_result \<Rightarrow> bool" where
  "completed (Exited status out) = True"
| "completed (Not_started m) = False"

text \<open>
  The same command, except that the exit status of every run other than the query
  \<^verbatim>\<open>ifconfig <interface>\<close> (two arguments) is replaced by what \<open>f\<close> makes of it. The runs of
  the writer's steps down, hw ether and up have three and five arguments.
\<close>

definition with_step_status ::
  "(string list \<Rightarrow> int \<Rightarrow> int) \<Rightarrow> 'os command \<Rightarrow> 'os command" where
  "with_step_status f sys argv s =
     (case sys argv s of
        (Exited status out, s') \<Rightarrow>
          (Exited (if length argv = 2 then status else f argv status) out, s')
      | (Not_started m, s') \<Rightarrow> (Not_started m, s'))"

text \<open>A command line asking for both show and restore.\<close>

definition show_and_restore :: args where
  "show_and_restore =
     \<lparr>arg_interface = ''eth0'', arg_mac = None, arg_restore = True, arg_show = True\<rparr>"

section \<open>Properties\<close>

subsection \<open>The random MAC generator\<close>

lemma hex_digit_lower: "is_lower_hex (hex_digit d)"
  unfolding hex_digit_def is_lower_hex_def by (rule nth_mem) simp

lemma format_02x_byte:
  assumes "0 \<le> b" "b \<le> 255"
  shows "format_02x b = [hex_digit (nat b div 16), hex_digit (nat b mod 16)]"
proof (cases "nat b < 16")
  case True
  then have "hex (nat b) = [hex_digit (nat b)]" by (simp add: hex.simps [of "nat b"])
  moreover have "hex_digit (nat b div 16) = CHR ''0''" using True by (simp add: hex_digit_def)
  ultimately show ?thesis using True assms by (simp add: format_02x_def)
next
  case False
  moreover have "nat b div 16 < 16" using assms by simp
  ultimately show ?thesis using assms
    by (simp add: format_02x_def hex.simps [of "nat b"] hex.simps [of "nat b div 16"])
qed

text \<open>The first byte is a byte whatever integer was drawn.\<close>

lemma first_byte_range:
  "0 \<le> or (and (r::int) 0xFE) 0x02 \<and> or (and (r::int) 0xFE) 0x02 \<le> 255"
proof -
  have a: "0 \<le> and r 0xFE" by simp
  have "and r 0xFE \<le> 0xFE" by (rule AND_upper2) simp
  then have b: "and r 0xFE < 2 ^ 8" by simp
  have "or (and r 0xFE) 0x02 < 2 ^ 8" by (rule OR_upper [OF a b]) simp
  then show ?thesis by simp
qed

lemma random_mac_bytes_eq:
  "random_mac_bytes t =
     ([or (and (t 0) 0xFE) 0x02, t 1, t 2, t 3, t 4, t 5], \<lambda>i. t (i + 6))"
  by (simp add: random_mac_bytes_def randint_def eval_nat_numeral)

lemma colon_groups_numeral:
  "colon_groups (numeral k) (c # a # b # s) =
     (c = CHR '':'' \<and> is_lower_hex a \<and> is_lower_hex b \<and> colon_groups (pred_numeral k) s)"
  by (simp add: numeral_eq_Suc)

lemma colon_groups_1:
  "colon_groups 1 (c # a # b # s) =
     (c = CHR '':'' \<and> is_lower_hex a \<and> is_lower_hex b \<and> s = [])"
  by simp

lemma canonical_mac_bytes:
  assumes "\<forall>b \<in> set [b0, b1, b2, b3, b4, b5]. 0 \<le> b \<and> b \<le> 255"
  shows "canonical_mac (join_colon (map format_02x [b0, b1, b2, b3, b4, b5]))"
  using assms
  by (simp add: format_02x_byte canonical_mac_def hex_digit_lower
        colon_groups_numeral colon_groups_1)

text \<open>
  Claim C1. When the draws are bytes (the range of \<^verbatim>\<open>random.randint(0, 255)\<close>), the first
  byte of the generated address is \<open>(r & 0xFE) | 0x02\<close> for the first draw \<open>r\<close>, its bit 1
  is set and its bit 0 is clear, the text starts with the two hex digits of that byte, and
  the text is six groups of two lowercase hex digits joined by colons.
\<close>

theorem generate_random_mac_canonical:
  assumes "\<forall>i \<in> {1..5}. 0 \<le> t i \<and> t i \<le> 255"
  shows "hd (fst (random_mac_bytes t)) = or (and (t 0) 0xFE) 0x02
    \<and> bit (hd (fst (random_mac_bytes t))) 1
    \<and> \<not> bit (hd (fst (random_mac_bytes t))) 0
    \<and> take 2 (fst (generate_random_mac t)) = format_02x (or (and (t 0) 0xFE) 0x02)
    \<and> canonical_mac (fst (generate_random_mac t))"
proof -
  let ?fb = "or (and (t 0) 0xFE) 0x02"
  have r: "\<forall>b \<in> set [?fb, t 1, t 2, t 3, t 4, t 5]. 0 \<le> b \<and> b \<le> 255"
    using assms first_byte_range [of "t 0"] by simp
  have c: "canonical_mac (fst (generate_random_mac t))"
    unfolding generate_random_mac_def random_mac_bytes_eq
    using canonical_mac_bytes [OF r] by simp
  have f: "take 2 (fst (generate_random_mac t)) = format_02x ?fb"
    unfolding generate_random_mac_def random_mac_bytes_eq
    using r by (simp add: format_02x_byte)
  show ?thesis using c f by (simp add: random_mac_bytes_eq bit_simps)
qed

text \<open>The draws 15, 55, 95, 135, 175, 215 give \<^verbatim>\<open>0e:37:5f:87:af:d7\<close>.\<close>

theorem generate_random_mac_canonical_witness:
  "fst (generate_random_mac (\<lambda>i. 40 * int i + 15)) = ''0e:37:5f:87:af:d7''
   \<and> canonical_mac ''0e:37:5f:87:af:d7''
   \<and> hd (fst (random_mac_bytes (\<lambda>i. 40 * int i + 15))) = 14"
proof -
  let ?t = "\<lambda>i::nat. 40 * int i + 15"
  have h: "\<forall>i \<in> {1..5}. 0 \<le> ?t i \<and> ?t i \<le> 255"
    by auto
  have v: "fst (generate_random_mac ?t) = ''0e:37:5f:87:af:d7''"
    by (simp add: generate_random_mac_def random_mac_bytes_eq format_02x_byte hex_digit_def)
  show ?thesis using generate_random_mac_canonical [OF h] v by simp
qed

subsection \<open>The MAC reader\<close>

lemma strip_prefix_iff: "strip_prefix p s = Some r \<longleftrightarrow> s = p @ r"
  by (induction p s rule: strip_prefix.induct) auto

lemma mac_char_not_space: "is_mac_char c \<Longrightarrow> \<not> is_space c"
  by (auto simp: is_mac_char_def is_space_def)

text \<open>
  The matcher agrees with the meaning of the pattern at a position: the word, some white
  space (any split of it, which is what backtracking explores), seventeen characters of
  the class.
\<close>

lemma match_here_iff:
  "match_here s = Some g \<longleftrightarrow>
     (\<exists>ws post. s = ''ether'' @ ws @ g @ post \<and> ws \<noteq> [] \<and> list_all is_space ws
        \<and> length g = 17 \<and> list_all is_mac_char g)"
proof
  assume m: "match_here s = Some g"
  then obtain r where r: "s = ''ether'' @ r"
    unfolding match_here_def using strip_prefix_iff [of "''ether''" s]
    by (auto split: option.splits)
  then have sp: "strip_prefix ''ether'' s = Some r" using strip_prefix_iff by blast
  let ?ws = "takeWhile is_space r"
  let ?d = "dropWhile is_space r"
  from m sp have g: "?ws \<noteq> []" "length g = 17" "list_all is_mac_char g" "g = take 17 ?d"
    unfolding match_here_def by (auto simp: Let_def split: if_splits)
  have "r = ?ws @ g @ drop 17 ?d" using g(4) by simp
  moreover have "list_all is_space ?ws" by (simp add: list_all_iff) (meson set_takeWhileD)
  ultimately show "\<exists>ws post. s = ''ether'' @ ws @ g @ post \<and> ws \<noteq> []
        \<and> list_all is_space ws \<and> length g = 17 \<and> list_all is_mac_char g"
    using r g by blast
next
  assume "\<exists>ws post. s = ''ether'' @ ws @ g @ post \<and> ws \<noteq> [] \<and> list_all is_space ws
        \<and> length g = 17 \<and> list_all is_mac_char g"
  then obtain ws post where h: "s = ''ether'' @ ws @ g @ post" "ws \<noteq> []"
    "list_all is_space ws" "length g = 17" "list_all is_mac_char g" by blast
  have sp: "strip_prefix ''ether'' s = Some (ws @ g @ post)"
    using h(1) strip_prefix_iff by blast
  from h(4) obtain c g' where c: "g = c # g'" by (cases g) auto
  then have "\<not> is_space c" using h(5) mac_char_not_space by simp
  then have tw: "takeWhile is_space (ws @ g @ post) = ws"
    and dw: "dropWhile is_space (ws @ g @ post) = g @ post"
    using h(3) c by (simp_all add: list_all_iff takeWhile_append2 dropWhile_append2)
  show "match_here s = Some g"
    unfolding match_here_def sp using tw dw h by (simp add: Let_def)
qed

lemma re_search_Some:
  "re_search s = Some g \<Longrightarrow>
     \<exists>pre ws post. s = pre @ ''ether'' @ ws @ g @ post \<and> ws \<noteq> [] \<and> list_all is_space ws
        \<and> length g = 17 \<and> list_all is_mac_char g"
proof (induction s)
  case Nil
  then show ?case by (simp add: match_here_def)
next
  case (Cons c s)
  show ?case
  proof (cases "match_here (c # s)")
    case None
    with Cons.prems have "re_search s = Some g" by simp
    from Cons.IH [OF this] obtain pre ws post where
      "s = pre @ ''ether'' @ ws @ g @ post \<and> ws \<noteq> [] \<and> list_all is_space ws
        \<and> length g = 17 \<and> list_all is_mac_char g" by blast
    then have "c # s = (c # pre) @ ''ether'' @ ws @ g @ post \<and> ws \<noteq> []
        \<and> list_all is_space ws \<and> length g = 17 \<and> list_all is_mac_char g" by simp
    then show ?thesis by blast
  next
    case (Some g')
    with Cons.prems have "match_here (c # s) = Some g" by simp
    then obtain ws post where "c # s = [] @ ''ether'' @ ws @ g @ post \<and> ws \<noteq> []
        \<and> list_all is_space ws \<and> length g = 17 \<and> list_all is_mac_char g"
      using match_here_iff [of "c # s" g] by auto
    then show ?thesis by blast
  qed
qed

text \<open>What the reader leaves alone, whatever it returns.\<close>

lemma get_current_mac_frame:
  assumes "get_current_mac sys i w = (r, w')"
  shows "config_file w' = config_file w \<and> rng w' = rng w
     \<and> commands w' = commands w @ [[''ifconfig'', i]]
     \<and> os w' = snd (sys [''ifconfig'', i] (os w))"
  using assms
  by (auto simp: get_current_mac_def run_def py_print_def
           split: prod.splits proc_result.splits captured.splits option.splits if_splits)

lemma get_current_mac_Some:
  assumes "get_current_mac sys i w = (Inr (Some m), w')"
  shows "\<exists>out. sys [''ifconfig'', i] (os w) = (Exited 0 (Text out), os w')
           \<and> re_search out = Some m"
  using assms
  by (auto simp: get_current_mac_def run_def py_print_def
           split: prod.splits proc_result.splits captured.splits option.splits if_splits)

lemma get_current_mac_Some_stdout:
  assumes "get_current_mac sys i w = (Inr (Some m), w')"
  shows "stdout w' = stdout w"
  using assms
  by (auto simp: get_current_mac_def run_def py_print_def
           split: prod.splits proc_result.splits captured.splits option.splits if_splits)

lemma get_current_mac_Some_nonempty:
  assumes "get_current_mac sys i w = (Inr (Some m), w')"
  shows "m \<noteq> []"
proof -
  from get_current_mac_Some [OF assms] obtain out where "re_search out = Some m" by blast
  from re_search_Some [OF this] have "length m = 17" by blast
  then show ?thesis by auto
qed

lemma get_current_mac_fst_os:
  "os v = os w \<Longrightarrow> fst (get_current_mac sys i v) = fst (get_current_mac sys i w)"
  by (simp add: get_current_mac_def run_def
           split: prod.splits proc_result.splits captured.splits option.splits)

text \<open>A read on a concrete output of the command, with the address in uppercase.\<close>

lemma re_search_upper:
  "re_search ''eth0: ether 00:1A:2B:3C:4D:5E txqueuelen 1000'' = Some ''00:1A:2B:3C:4D:5E''"
  by (simp add: match_here_def is_space_def is_mac_char_def)

lemma get_current_mac_upper:
  "get_current_mac scripted ''eth0''
       (world0 [Exited 0 (Text ''eth0: ether 00:1A:2B:3C:4D:5E txqueuelen 1000'')] Absent)
     = (Inr (Some ''00:1A:2B:3C:4D:5E''),
        (world0 [] Absent)\<lparr>commands := [[''ifconfig'', ''eth0'']]\<rparr>)"
  by (simp add: get_current_mac_def run_def world0_def re_search_upper del: re_search.simps)

text \<open>
  Claim C8, as the code has it. The claim says that a non-null result of the reader is in
  canonical form, with lowercase hex digits and colons between the groups. The class of
  the pattern also admits uppercase digits and puts the colon anywhere, and the result is
  returned as matched. What holds: a non-null result has exactly seventeen characters,
  each a hex digit of either case or a colon, and it stands in the output of the command,
  which exited with status 0, right after the word \<^verbatim>\<open>ether\<close> and one or more white-space
  characters.
\<close>

theorem get_current_mac_shape:
  assumes "get_current_mac sys i w = (Inr (Some m), w')"
  shows "length m = 17 \<and> list_all is_mac_char m
     \<and> (\<exists>out pre ws post.
           sys [''ifconfig'', i] (os w) = (Exited 0 (Text out), os w')
         \<and> out = pre @ ''ether'' @ ws @ m @ post \<and> ws \<noteq> [] \<and> list_all is_space ws)"
proof -
  from get_current_mac_Some [OF assms] obtain out where
    o: "sys [''ifconfig'', i] (os w) = (Exited 0 (Text out), os w')" "re_search out = Some m"
    by blast
  from re_search_Some [OF o(2)] o(1) show ?thesis by blast
qed

theorem get_current_mac_shape_witness:
  "get_current_mac scripted ''eth0''
       (world0 [Exited 0 (Text ''eth0: ether 00:1A:2B:3C:4D:5E txqueuelen 1000'')] Absent)
     = (Inr (Some ''00:1A:2B:3C:4D:5E''),
        (world0 [] Absent)\<lparr>commands := [[''ifconfig'', ''eth0'']]\<rparr>)
   \<and> length ''00:1A:2B:3C:4D:5E'' = 17 \<and> list_all is_mac_char ''00:1A:2B:3C:4D:5E''"
  using get_current_mac_shape [OF get_current_mac_upper] get_current_mac_upper by simp

text \<open>
  The claim C8 as stated fails: the command prints the address in uppercase, the reader
  returns it unchanged, and it is not in canonical form.
\<close>

theorem get_current_mac_canonical_counterexample:
  "fst (get_current_mac scripted ''eth0''
       (world0 [Exited 0 (Text ''eth0: ether 00:1A:2B:3C:4D:5E txqueuelen 1000'')] Absent))
     = Inr (Some ''00:1A:2B:3C:4D:5E'')
   \<and> \<not> canonical_mac ''00:1A:2B:3C:4D:5E''"
  by (simp add: get_current_mac_upper canonical_mac_def is_lower_hex_def colon_groups_numeral)

subsection \<open>The store of original addresses\<close>

lemma save_original_mac_Absent:
  "config_file w = Absent \<Longrightarrow>
   save_original_mac i mac w =
     (Inr (), w\<lparr>stdout := stdout w @ [''[*] Original MAC address for '' @ i @ '' saved: '' @ mac],
                config_file := Record [i \<mapsto> mac]\<rparr>)"
  by (simp add: save_original_mac_def py_print_def)

lemma save_original_mac_new:
  "config_file w = Record c \<Longrightarrow> c i = None \<Longrightarrow>
   save_original_mac i mac w =
     (Inr (), w\<lparr>stdout := stdout w @ [''[*] Original MAC address for '' @ i @ '' saved: '' @ mac],
                config_file := Record (c(i \<mapsto> mac))\<rparr>)"
  by (simp add: save_original_mac_def py_print_def)

lemma save_original_mac_present:
  "config_file w = Record c \<Longrightarrow> c i = Some v \<Longrightarrow> save_original_mac i mac w = (Inr (), w)"
  by (simp add: save_original_mac_def)

lemma save_original_mac_Malformed:
  "config_file w = Malformed e \<Longrightarrow> save_original_mac i mac w = (Inl (JSONDecodeError e), w)"
  by (simp add: save_original_mac_def)

text \<open>What a lookup sees after a save, in terms of what it saw before.\<close>

lemma get_after_save:
  "get_original_mac j (snd (save_original_mac i mac w)) =
     (case get_original_mac i w of
        Inl e \<Rightarrow> Inl e
      | Inr None \<Rightarrow> if j = i then Inr (Some mac) else get_original_mac j w
      | Inr (Some v) \<Rightarrow> get_original_mac j w)"
proof (cases "config_file w")
  case Absent
  then show ?thesis
    by (simp add: save_original_mac_Absent) (simp add: get_original_mac_def)
next
  case (Malformed e)
  then show ?thesis
    by (simp add: save_original_mac_Malformed) (simp add: get_original_mac_def)
next
  case (Record c)
  show ?thesis
  proof (cases "c i")
    case None
    with Record show ?thesis
      by (simp add: save_original_mac_new) (simp add: get_original_mac_def)
  next
    case (Some v)
    with Record show ?thesis
      by (simp add: save_original_mac_present) (simp add: get_original_mac_def)
  qed
qed

lemma save_original_mac_frame:
  "os (snd (save_original_mac i mac w)) = os w
   \<and> commands (snd (save_original_mac i mac w)) = commands w
   \<and> rng (snd (save_original_mac i mac w)) = rng w"
  by (cases "load_config (config_file w)") (simp_all add: save_original_mac_def py_print_def)

text \<open>
  Claim C3. When the record file holds an original address for the interface, a save for
  that interface with any address returns normally and leaves the whole state as it was,
  so a lookup still gives the recorded address. When a lookup finds nothing, two saves for
  the interface with two addresses leave the first one stored.
\<close>

theorem save_first_write_wins:
  "(\<forall>c v. config_file w = Record c \<and> c i = Some v \<longrightarrow>
      save_original_mac i mac w = (Inr (), w)
      \<and> get_original_mac i (snd (save_original_mac i mac w)) = Inr (Some v))
   \<and> (get_original_mac i w = Inr None \<longrightarrow>
        get_original_mac i
          (snd (save_original_mac i mac2 (snd (save_original_mac i mac1 w)))) = Inr (Some mac1))"
proof -
  have a: "save_original_mac i mac w = (Inr (), w)
      \<and> get_original_mac i (snd (save_original_mac i mac w)) = Inr (Some v)"
    if "config_file w = Record c" "c i = Some v" for c v
    using that by (simp add: save_original_mac_present) (simp add: get_original_mac_def)
  have b: "get_original_mac i
          (snd (save_original_mac i mac2 (snd (save_original_mac i mac1 w)))) = Inr (Some mac1)"
    if "get_original_mac i w = Inr None"
    using that by (simp add: get_after_save)
  show ?thesis using a b by blast
qed

theorem save_first_write_wins_witness:
  "config_file recorded = Record [''eth0'' \<mapsto> ''00:11:22:33:44:55'']
   \<and> [''eth0'' \<mapsto> ''00:11:22:33:44:55''] ''eth0'' = Some ''00:11:22:33:44:55''
   \<and> get_original_mac ''eth0'' (snd (save_original_mac ''eth0'' ''02:aa:aa:aa:aa:aa'' recorded))
       = Inr (Some ''00:11:22:33:44:55'')
   \<and> get_original_mac ''eth0'' (world0 [] Absent) = Inr None
   \<and> get_original_mac ''eth0''
        (snd (save_original_mac ''eth0'' ''02:bb:bb:bb:bb:bb''
           (snd (save_original_mac ''eth0'' ''02:aa:aa:aa:aa:aa'' (world0 [] Absent)))))
       = Inr (Some ''02:aa:aa:aa:aa:aa'')"
proof -
  have h1: "config_file recorded = Record [''eth0'' \<mapsto> ''00:11:22:33:44:55'']
     \<and> [''eth0'' \<mapsto> ''00:11:22:33:44:55''] ''eth0'' = Some ''00:11:22:33:44:55''"
    by (simp add: recorded_def world0_def)
  have h2: "get_original_mac ''eth0'' (world0 [] Absent) = Inr None"
    by (simp add: get_original_mac_def world0_def)
  from h1 save_first_write_wins [of recorded "''eth0''" "''02:aa:aa:aa:aa:aa''"
      "''02:bb:bb:bb:bb:bb''" "''02:aa:aa:aa:aa:aa''"]
  have c1: "get_original_mac ''eth0''
      (snd (save_original_mac ''eth0'' ''02:aa:aa:aa:aa:aa'' recorded))
       = Inr (Some ''00:11:22:33:44:55'')"
    by blast
  from h2 save_first_write_wins [of "world0 [] Absent" "''eth0''" "''02:aa:aa:aa:aa:aa''"
      "''02:bb:bb:bb:bb:bb''" "''02:aa:aa:aa:aa:aa''"]
  have c2: "get_original_mac ''eth0''
        (snd (save_original_mac ''eth0'' ''02:bb:bb:bb:bb:bb''
           (snd (save_original_mac ''eth0'' ''02:aa:aa:aa:aa:aa'' (world0 [] Absent)))))
       = Inr (Some ''02:aa:aa:aa:aa:aa'')"
    by blast
  from h1 h2 c1 c2 show ?thesis by blast
qed

text \<open>
  Claim C4. A lookup returns \<^verbatim>\<open>None\<close> when there is no record file and when the file has
  no entry for the interface; and from a state where the lookup returns \<^verbatim>\<open>None\<close>, a save
  returns normally and a lookup after it returns exactly the saved address.
\<close>

theorem save_get_roundtrip:
  "(config_file w = Absent \<longrightarrow> get_original_mac i w = Inr None)
   \<and> (\<forall>c. config_file w = Record c \<and> c i = None \<longrightarrow> get_original_mac i w = Inr None)
   \<and> (get_original_mac i w = Inr None \<longrightarrow>
        fst (save_original_mac i mac w) = Inr ()
        \<and> get_original_mac i (snd (save_original_mac i mac w)) = Inr (Some mac))"
proof -
  have a: "config_file w = Absent \<longrightarrow> get_original_mac i w = Inr None"
    by (simp add: get_original_mac_def)
  have b: "\<forall>c. config_file w = Record c \<and> c i = None \<longrightarrow> get_original_mac i w = Inr None"
    by (simp add: get_original_mac_def)
  have c: "fst (save_original_mac i mac w) = Inr ()" if "get_original_mac i w = Inr None"
    using that
    by (cases "config_file w") (simp_all add: get_original_mac_def save_original_mac_def)
  have d: "get_original_mac i (snd (save_original_mac i mac w)) = Inr (Some mac)"
    if "get_original_mac i w = Inr None"
    using that by (simp add: get_after_save)
  show ?thesis using a b c d by blast
qed

theorem save_get_roundtrip_witness:
  "config_file (world0 [] Absent) = Absent
   \<and> get_original_mac ''eth0'' (world0 [] Absent) = Inr None
   \<and> config_file recorded = Record [''eth0'' \<mapsto> ''00:11:22:33:44:55'']
   \<and> [''eth0'' \<mapsto> ''00:11:22:33:44:55''] ''wlan0'' = None
   \<and> get_original_mac ''wlan0'' recorded = Inr None
   \<and> get_original_mac ''wlan0'' (snd (save_original_mac ''wlan0'' ''aa:bb:cc:dd:ee:ff'' recorded))
       = Inr (Some ''aa:bb:cc:dd:ee:ff'')"
proof -
  have h1: "config_file (world0 [] Absent) = Absent" by (simp add: world0_def)
  have h2: "config_file recorded = Record [''eth0'' \<mapsto> ''00:11:22:33:44:55'']
     \<and> [''eth0'' \<mapsto> ''00:11:22:33:44:55''] ''wlan0'' = None"
    by (simp add: recorded_def world0_def)
  from h1 save_get_roundtrip [of "world0 [] Absent" "''eth0''" "''aa:bb:cc:dd:ee:ff''"]
  have c1: "get_original_mac ''eth0'' (world0 [] Absent) = Inr None"
    by blast
  from h2 save_get_roundtrip [of recorded "''wlan0''" "''aa:bb:cc:dd:ee:ff''"]
  have c2: "get_original_mac ''wlan0'' recorded = Inr None"
    by blast
  from c2 save_get_roundtrip [of recorded "''wlan0''" "''aa:bb:cc:dd:ee:ff''"]
  have c3: "get_original_mac ''wlan0''
      (snd (save_original_mac ''wlan0'' ''aa:bb:cc:dd:ee:ff'' recorded))
       = Inr (Some ''aa:bb:cc:dd:ee:ff'')"
    by blast
  from h1 h2 c1 c2 c3 show ?thesis by blast
qed

text \<open>
  Claim C10. A save for one interface does not change what a lookup gives for any other
  interface, in every state of the record file (a file that does not parse makes both
  lookups raise the same error, and the save leaves it as it is).
\<close>

theorem save_frame:
  "j \<noteq> i \<Longrightarrow> get_original_mac j (snd (save_original_mac i mac w)) = get_original_mac j w"
  by (cases "config_file w")
     (auto simp: save_original_mac_def get_original_mac_def py_print_def split: option.splits)

theorem save_frame_witness:
  "''eth0'' \<noteq> ''wlan0''
   \<and> get_original_mac ''eth0'' (snd (save_original_mac ''wlan0'' ''aa:bb:cc:dd:ee:ff'' recorded))
       = Inr (Some ''00:11:22:33:44:55'')"
proof -
  have h: "''eth0'' \<noteq> ''wlan0''" by simp
  have v: "get_original_mac ''eth0'' recorded = Inr (Some ''00:11:22:33:44:55'')"
    by (simp add: get_original_mac_def recorded_def world0_def)
  show ?thesis using save_frame [OF h, of "''aa:bb:cc:dd:ee:ff''" recorded] v h by simp
qed

subsection \<open>The MAC writer\<close>

lemma subprocess_call_cases:
  "subprocess_call sys argv w =
     (case sys argv (os w) of
        (Not_started m, s') \<Rightarrow> (Inl (OSError m), w\<lparr>os := s', commands := commands w @ [argv]\<rparr>)
      | (Exited status out, s') \<Rightarrow> (Inr status, w\<lparr>os := s', commands := commands w @ [argv]\<rparr>))"
  by (simp add: subprocess_call_def run_def split: prod.splits proc_result.splits)

lemma verify_fst:
  "fst (case get_current_mac sys i w of
          (Inl e, w4) \<Rightarrow> change_failed e w4
        | (Inr current_mac, w4) \<Rightarrow>
            if current_mac = Some m then (True, A w4) else (False, B w4))
   \<longleftrightarrow> fst (get_current_mac sys i w) = Inr (Some m)"
  by (auto simp: change_failed_def split: prod.splits sum.splits)

text \<open>The writer after three steps that all came back: only the verification is left.\<close>

lemma set_mac_address_completed:
  assumes "sys [''ifconfig'', i, ''down''] (os w) = (Exited c1 o1, s1)"
      and "sys [''ifconfig'', i, ''hw'', ''ether'', m] s1 = (Exited c2 o2, s2)"
      and "sys [''ifconfig'', i, ''up''] s2 = (Exited c3 o3, s3)"
  shows "set_mac_address sys i m w =
     (case get_current_mac sys i
        (w\<lparr>stdout := stdout w @ [''[*] Changing MAC address for '' @ i @ '' to '' @ m],
           os := s3,
           commands := commands w @ [[''ifconfig'', i, ''down''],
             [''ifconfig'', i, ''hw'', ''ether'', m], [''ifconfig'', i, ''up'']]\<rparr>) of
        (Inl e, w4) \<Rightarrow> change_failed e w4
      | (Inr current_mac, w4) \<Rightarrow>
          if current_mac = Some m then
            (True, py_print (''[+] MAC address was successfully changed to '' @ m) w4)
          else
            (False, py_print (''[!] Failed to change MAC address to '' @ m) w4))"
  unfolding set_mac_address_def Let_def
  using assms by (simp add: subprocess_call_cases py_print_def)

lemma set_mac_address_not_completed:
  assumes "sys [''ifconfig'', i, ''down''] (os w) = (r1, s1)"
      and "sys [''ifconfig'', i, ''hw'', ''ether'', m] s1 = (r2, s2)"
      and "sys [''ifconfig'', i, ''up''] s2 = (r3, s3)"
      and "\<not> (completed r1 \<and> completed r2 \<and> completed r3)"
  shows "\<not> fst (set_mac_address sys i m w)"
  unfolding set_mac_address_def Let_def
  using assms
  by (cases r1; cases r2; cases r3)
     (simp_all add: subprocess_call_cases py_print_def change_failed_def)

lemma get_current_mac_with_step_status:
  "get_current_mac (with_step_status f sys) i w = get_current_mac sys i w"
  by (simp add: get_current_mac_def run_def with_step_status_def
           split: prod.splits proc_result.splits)

lemma subprocess_call_with_step_status:
  "(case subprocess_call (with_step_status f sys) argv w of
      (Inl e, w') \<Rightarrow> F e w' | (Inr status, w') \<Rightarrow> G w')
   = (case subprocess_call sys argv w of
      (Inl e, w') \<Rightarrow> F e w' | (Inr status, w') \<Rightarrow> G w')"
  by (simp add: subprocess_call_cases with_step_status_def
           split: prod.splits proc_result.splits)

lemma set_mac_address_with_step_status:
  "set_mac_address (with_step_status f sys) i m w = set_mac_address sys i m w"
  unfolding set_mac_address_def Let_def
  by (simp add: subprocess_call_with_step_status get_current_mac_with_step_status
           cong: prod.case_cong sum.case_cong)

lemma re_search_lower:
  "re_search ''ether 02:aa:aa:aa:aa:aa'' = Some ''02:aa:aa:aa:aa:aa''"
  by (simp add: match_here_def is_space_def is_mac_char_def)

text \<open>
  Claim C2. Name the results of the three steps down, hw ether and up, run one after the
  other from the state the writer starts in. The writer returns success exactly when all
  three came back with an exit status, whatever it is, and the reader, run in the state
  the third step leaves, returns the requested address. When a step could not be started
  no verification read takes place and the writer returns failure. Replacing the exit
  statuses of the steps by anything else changes neither the result nor the final state.
\<close>

theorem set_mac_address_success_iff:
  assumes "sys [''ifconfig'', i, ''down''] (os w) = (r1, s1)"
      and "sys [''ifconfig'', i, ''hw'', ''ether'', m] s1 = (r2, s2)"
      and "sys [''ifconfig'', i, ''up''] s2 = (r3, s3)"
  shows "(fst (set_mac_address sys i m w) \<longleftrightarrow>
           completed r1 \<and> completed r2 \<and> completed r3
           \<and> fst (get_current_mac sys i (w\<lparr>os := s3\<rparr>)) = Inr (Some m))
     \<and> set_mac_address (with_step_status f sys) i m w = set_mac_address sys i m w"
proof (cases "completed r1 \<and> completed r2 \<and> completed r3")
  case True
  then obtain c1 o1 c2 o2 c3 o3 where
    r: "r1 = Exited c1 o1" "r2 = Exited c2 o2" "r3 = Exited c3 o3"
    by (metis completed.elims(2))
  let ?w3 = "w\<lparr>stdout := stdout w @ [''[*] Changing MAC address for '' @ i @ '' to '' @ m],
                os := s3,
                commands := commands w @ [[''ifconfig'', i, ''down''],
                  [''ifconfig'', i, ''hw'', ''ether'', m], [''ifconfig'', i, ''up'']]\<rparr>"
  have "fst (set_mac_address sys i m w) \<longleftrightarrow> fst (get_current_mac sys i ?w3) = Inr (Some m)"
    using set_mac_address_completed [OF assms [unfolded r]] by (simp add: verify_fst)
  moreover have "fst (get_current_mac sys i ?w3) = fst (get_current_mac sys i (w\<lparr>os := s3\<rparr>))"
    by (rule get_current_mac_fst_os) simp
  ultimately show ?thesis using True by (simp add: set_mac_address_with_step_status)
next
  case False
  from set_mac_address_not_completed [OF assms False] False
  show ?thesis by (auto simp: set_mac_address_with_step_status)
qed

theorem set_mac_address_success_iff_witness:
  "scripted [''ifconfig'', ''eth0'', ''down'']
      [Exited 1 (Text []), Exited 255 (Text []), Exited 2 (Text []),
       Exited 0 (Text ''ether 02:aa:aa:aa:aa:aa'')]
     = (Exited 1 (Text []),
        [Exited 255 (Text []), Exited 2 (Text []),
         Exited 0 (Text ''ether 02:aa:aa:aa:aa:aa'')])
   \<and> fst (set_mac_address scripted ''eth0'' ''02:aa:aa:aa:aa:aa''
        (world0 [Exited 1 (Text []), Exited 255 (Text []), Exited 2 (Text []),
                 Exited 0 (Text ''ether 02:aa:aa:aa:aa:aa'')] Absent))"
proof -
  let ?r4 = "Exited 0 (Text ''ether 02:aa:aa:aa:aa:aa'')"
  let ?w = "world0 [Exited 1 (Text []), Exited 255 (Text []), Exited 2 (Text []), ?r4]
              Absent"
  have h1: "scripted [''ifconfig'', ''eth0'', ''down''] (os ?w)
      = (Exited 1 (Text []), [Exited 255 (Text []), Exited 2 (Text []), ?r4])"
    by (simp add: world0_def)
  have h2: "scripted [''ifconfig'', ''eth0'', ''hw'', ''ether'', ''02:aa:aa:aa:aa:aa'']
      [Exited 255 (Text []), Exited 2 (Text []), ?r4]
      = (Exited 255 (Text []), [Exited 2 (Text []), ?r4])"
    by simp
  have h3: "scripted [''ifconfig'', ''eth0'', ''up''] [Exited 2 (Text []), ?r4]
      = (Exited 2 (Text []), [?r4])"
    by simp
  have v: "fst (get_current_mac scripted ''eth0'' (?w\<lparr>os := [?r4]\<rparr>))
      = Inr (Some ''02:aa:aa:aa:aa:aa'')"
    by (simp add: get_current_mac_def run_def world0_def re_search_lower del: re_search.simps)
  from set_mac_address_success_iff [OF h1 h2 h3] v
  have "fst (set_mac_address scripted ''eth0'' ''02:aa:aa:aa:aa:aa'' ?w)" by simp
  then show ?thesis by simp
qed

text \<open>
  Claim C9. When the three steps came back and the reader, run in the state the third
  step leaves, returns \<^verbatim>\<open>None\<close>, the writer returns failure, and its last line of output
  is the one it prints for a mismatch.
\<close>

theorem set_mac_address_failed_reread:
  assumes "sys [''ifconfig'', i, ''down''] (os w) = (Exited c1 o1, s1)"
      and "sys [''ifconfig'', i, ''hw'', ''ether'', m] s1 = (Exited c2 o2, s2)"
      and "sys [''ifconfig'', i, ''up''] s2 = (Exited c3 o3, s3)"
      and "fst (get_current_mac sys i (w\<lparr>os := s3\<rparr>)) = Inr None"
  shows "fst (set_mac_address sys i m w) = False
     \<and> last (stdout (snd (set_mac_address sys i m w))) = ''[!] Failed to change MAC address to '' @ m"
proof -
  let ?w3 = "w\<lparr>stdout := stdout w @ [''[*] Changing MAC address for '' @ i @ '' to '' @ m],
                os := s3,
                commands := commands w @ [[''ifconfig'', i, ''down''],
                  [''ifconfig'', i, ''hw'', ''ether'', m], [''ifconfig'', i, ''up'']]\<rparr>"
  have "fst (get_current_mac sys i ?w3) = fst (get_current_mac sys i (w\<lparr>os := s3\<rparr>))"
    by (rule get_current_mac_fst_os) simp
  with assms(4) obtain w4 where g: "get_current_mac sys i ?w3 = (Inr None, w4)"
    by (metis prod.collapse)
  show ?thesis
    using set_mac_address_completed [OF assms(1-3)] g by (simp add: py_print_def)
qed

theorem set_mac_address_failed_reread_witness:
  "fst (get_current_mac scripted ''eth0''
      ((world0 [Exited 0 (Text []), Exited 0 (Text []), Exited 0 (Text []),
                Exited 1 (Text [])] Absent)\<lparr>os := [Exited 1 (Text [])]\<rparr>)) = Inr None
   \<and> fst (set_mac_address scripted ''eth0'' ''02:aa:aa:aa:aa:aa''
        (world0 [Exited 0 (Text []), Exited 0 (Text []), Exited 0 (Text []),
                 Exited 1 (Text [])] Absent)) = False"
proof -
  let ?r4 = "Exited 1 (Text [])"
  let ?w = "world0 [Exited 0 (Text []), Exited 0 (Text []), Exited 0 (Text []), ?r4]
              Absent"
  have h1: "scripted [''ifconfig'', ''eth0'', ''down''] (os ?w)
      = (Exited 0 (Text []), [Exited 0 (Text []), Exited 0 (Text []), ?r4])"
    by (simp add: world0_def)
  have h2: "scripted [''ifconfig'', ''eth0'', ''hw'', ''ether'', ''02:aa:aa:aa:aa:aa'']
      [Exited 0 (Text []), Exited 0 (Text []), ?r4]
      = (Exited 0 (Text []), [Exited 0 (Text []), ?r4])"
    by simp
  have h3: "scripted [''ifconfig'', ''eth0'', ''up''] [Exited 0 (Text []), ?r4]
      = (Exited 0 (Text []), [?r4])"
    by simp
  have h4: "fst (get_current_mac scripted ''eth0'' (?w\<lparr>os := [?r4]\<rparr>)) = Inr None"
    by (simp add: get_current_mac_def run_def world0_def)
  from set_mac_address_failed_reread [OF h1 h2 h3 h4] h4 show ?thesis by simp
qed

subsection \<open>The entry flow\<close>

lemma remember_original_frame:
  "os (snd (remember_original i cur w)) = os w
   \<and> commands (snd (remember_original i cur w)) = commands w"
proof (cases "get_original_mac i w")
  case (Inl e)
  then show ?thesis by (simp add: remember_original_def)
next
  case (Inr original)
  show ?thesis
  proof (cases "truthy original")
    case None
    with Inr save_original_mac_frame [of i cur w] show ?thesis
      by (cases "save_original_mac i cur w") (auto simp: remember_original_def split: sum.splits)
  next
    case (Some original_mac)
    with Inr show ?thesis by (simp add: remember_original_def)
  qed
qed

lemma remember_original_parses:
  assumes "\<forall>e. config_file w \<noteq> Malformed e"
  shows "\<exists>original_mac w'. remember_original i cur w = (Inr original_mac, w')"
proof (cases "config_file w")
  case Absent
  then show ?thesis
    by (simp add: remember_original_def get_original_mac_def save_original_mac_Absent)
next
  case (Malformed e)
  with assms show ?thesis by simp
next
  case (Record c)
  show ?thesis
  proof (cases "c i")
    case None
    with Record show ?thesis
      by (simp add: remember_original_def get_original_mac_def save_original_mac_new)
  next
    case (Some v)
    with Record show ?thesis
      by (cases "v = []")
         (simp_all add: remember_original_def get_original_mac_def save_original_mac_present)
  qed
qed

lemma perform_show:
  "arg_show a \<Longrightarrow>
   perform sys a cur orig w =
     py_print (''Original MAC for '' @ arg_interface a @ '': '' @ orig)
       (py_print (''Current MAC for '' @ arg_interface a @ '': '' @ cur) w)"
  by (simp add: perform_def)

lemma main_Some:
  assumes "get_current_mac sys (arg_interface a) w = (Inr (Some cur), w1)"
  shows "main sys a w =
     (case remember_original (arg_interface a) cur w1 of
        (Inl e, w2) \<Rightarrow> (Inl e, w2)
      | (Inr original_mac, w2) \<Rightarrow> (Inr (), perform sys a cur original_mac w2))"
  using assms get_current_mac_Some_nonempty [OF assms] by (simp add: main_def)

lemma main_show_commands:
  assumes "arg_show a"
  shows "commands (snd (main sys a w)) = commands w @ [[''ifconfig'', arg_interface a]]
     \<and> os (snd (main sys a w)) = snd (sys [''ifconfig'', arg_interface a] (os w))"
proof -
  obtain r w1 where g: "get_current_mac sys (arg_interface a) w = (r, w1)"
    by (cases "get_current_mac sys (arg_interface a) w")
  note f = get_current_mac_frame [OF g]
  show ?thesis
  proof (cases r)
    case (Inl e)
    with g f show ?thesis by (simp add: main_def)
  next
    case (Inr current)
    show ?thesis
    proof (cases "truthy current")
      case None
      with g f Inr show ?thesis by (simp add: main_def py_print_def)
    next
      case (Some cur)
      obtain q w2 where ro: "remember_original (arg_interface a) cur w1 = (q, w2)"
        by (cases "remember_original (arg_interface a) cur w1")
      with remember_original_frame [of "arg_interface a" cur w1]
      have "os w2 = os w1" "commands w2 = commands w1" by simp_all
      with g f Inr Some ro assms show ?thesis
        by (cases q) (simp_all add: main_def perform_show py_print_def)
    qed
  qed
qed

lemma main_show_restore:
  assumes "arg_show a"
  shows "main sys (a\<lparr>arg_restore := r\<rparr>) w = main sys a w"
proof -
  have "perform sys (a\<lparr>arg_restore := r\<rparr>) cur orig v = perform sys a cur orig v" for cur orig v
    using assms by (simp add: perform_def)
  then show ?thesis by (simp add: main_def cong: prod.case_cong sum.case_cong option.case_cong)
qed

lemma world0_sel:
  "os (world0 s f) = s" "config_file (world0 s f) = f" "stdout (world0 s f) = []"
  "commands (world0 s f) = []"
  by (simp_all add: world0_def)

lemma re_search_plain:
  "re_search ''ether 00:11:22:33:44:55'' = Some ''00:11:22:33:44:55''"
  by (simp add: match_here_def is_space_def is_mac_char_def)

lemma get_current_mac_plain:
  "get_current_mac scripted ''eth0'' (world0 [Exited 0 (Text ''ether 00:11:22:33:44:55'')] f)
     = (Inr (Some ''00:11:22:33:44:55''),
        (world0 [] f)\<lparr>commands := [[''ifconfig'', ''eth0'']]\<rparr>)"
  by (simp add: get_current_mac_def run_def world0_def re_search_plain del: re_search.simps)

lemma get_current_mac_failing:
  "get_current_mac scripted ''eth0'' (world0 [Exited 1 (Text [])] f)
     = (Inr None,
        (world0 [] f)\<lparr>commands := [[''ifconfig'', ''eth0'']],
                       stdout := [''[!] Error running ifconfig for eth0'']\<rparr>)"
  by (simp add: get_current_mac_def run_def world0_def py_print_def)

text \<open>
  Claim C6. When the initial read returns \<^verbatim>\<open>None\<close>, the run prints that it could not get
  the current address and ends normally there, whatever the flags: the record file is as
  it was, and the only command run is the query of the read itself.
\<close>

theorem main_read_failure:
  assumes "get_current_mac sys (arg_interface a) w = (Inr None, w1)"
  shows "main sys a w =
           (Inr (), py_print (''[!] Could not get current MAC address for '' @ arg_interface a) w1)
     \<and> config_file (snd (main sys a w)) = config_file w
     \<and> commands (snd (main sys a w)) = commands w @ [[''ifconfig'', arg_interface a]]"
  using assms get_current_mac_frame [OF assms]
  by (simp add: main_def py_print_def)

theorem main_read_failure_witness:
  "get_current_mac scripted (arg_interface show_and_restore) (world0 [Exited 1 (Text [])] (Record [''eth0'' \<mapsto> ''00:11:22:33:44:55'']))
     = (Inr None,
        (world0 [] (Record [''eth0'' \<mapsto> ''00:11:22:33:44:55'']))\<lparr>commands := [[''ifconfig'', ''eth0'']],
                       stdout := [''[!] Error running ifconfig for eth0'']\<rparr>)
   \<and> config_file (snd (main scripted (show_and_restore\<lparr>arg_show := False\<rparr>)
         (world0 [Exited 1 (Text [])] (Record [''eth0'' \<mapsto> ''00:11:22:33:44:55''])))) = (Record [''eth0'' \<mapsto> ''00:11:22:33:44:55''])
   \<and> commands (snd (main scripted (show_and_restore\<lparr>arg_show := False\<rparr>)
         (world0 [Exited 1 (Text [])] (Record [''eth0'' \<mapsto> ''00:11:22:33:44:55''])))) = [[''ifconfig'', ''eth0'']]"
proof -
  let ?a = "show_and_restore\<lparr>arg_show := False\<rparr>"
  have i: "arg_interface ?a = ''eth0''" "arg_interface show_and_restore = ''eth0''"
    by (simp_all add: show_and_restore_def)
  have g: "get_current_mac scripted (arg_interface ?a) (world0 [Exited 1 (Text [])] (Record [''eth0'' \<mapsto> ''00:11:22:33:44:55'']))
     = (Inr None,
        (world0 [] (Record [''eth0'' \<mapsto> ''00:11:22:33:44:55'']))\<lparr>commands := [[''ifconfig'', ''eth0'']],
                       stdout := [''[!] Error running ifconfig for eth0'']\<rparr>)"
    by (simp add: i get_current_mac_failing)
  from main_read_failure [OF g]
  have c: "config_file (snd (main scripted ?a (world0 [Exited 1 (Text [])] (Record [''eth0'' \<mapsto> ''00:11:22:33:44:55'']))))
        = config_file (world0 [Exited 1 (Text [])] (Record [''eth0'' \<mapsto> ''00:11:22:33:44:55'']))
     \<and> commands (snd (main scripted ?a (world0 [Exited 1 (Text [])] (Record [''eth0'' \<mapsto> ''00:11:22:33:44:55'']))))
        = commands (world0 [Exited 1 (Text [])] (Record [''eth0'' \<mapsto> ''00:11:22:33:44:55''])) @ [[''ifconfig'', arg_interface ?a]]"
    by blast
  from c g i show ?thesis by (simp add: world0_sel)
qed

text \<open>
  Claim C5. When the record file does not parse, a save raises the parse error and leaves
  the state as it was, a lookup raises it, and every run whose initial read returns an
  address ends with that error right after the read, having printed nothing.
\<close>

theorem malformed_config_raises:
  assumes "config_file w = Malformed e"
  shows "save_original_mac i mac w = (Inl (JSONDecodeError e), w)
     \<and> get_original_mac i w = Inl (JSONDecodeError e)
     \<and> (\<forall>current_mac w1. get_current_mac sys (arg_interface a) w = (Inr (Some current_mac), w1)
          \<longrightarrow> main sys a w = (Inl (JSONDecodeError e), w1) \<and> stdout w1 = stdout w)"
proof -
  have "main sys a w = (Inl (JSONDecodeError e), w1) \<and> stdout w1 = stdout w"
    if r: "get_current_mac sys (arg_interface a) w = (Inr (Some current_mac), w1)"
    for current_mac w1
  proof -
    from get_current_mac_frame [OF r] assms have "config_file w1 = Malformed e" by simp
    with main_Some [OF r] get_current_mac_Some_stdout [OF r] show ?thesis
      by (simp add: remember_original_def get_original_mac_def)
  qed
  then show ?thesis using assms
    by (simp add: save_original_mac_Malformed get_original_mac_def)
qed

theorem malformed_config_raises_witness:
  "config_file (world0 [Exited 0 (Text ''ether 00:11:22:33:44:55'')] (Malformed ''Expecting value''))
     = Malformed ''Expecting value''
   \<and> fst (main scripted show_and_restore
        (world0 [Exited 0 (Text ''ether 00:11:22:33:44:55'')] (Malformed ''Expecting value'')))
       = Inl (JSONDecodeError ''Expecting value'')
   \<and> stdout (snd (main scripted show_and_restore
        (world0 [Exited 0 (Text ''ether 00:11:22:33:44:55'')] (Malformed ''Expecting value''))))
       = []"
proof -
  let ?w = "world0 [Exited 0 (Text ''ether 00:11:22:33:44:55'')] (Malformed ''Expecting value'')"
  have h: "config_file ?w = Malformed ''Expecting value''" by (simp add: world0_def)
  have i: "arg_interface show_and_restore = ''eth0''" by (simp add: show_and_restore_def)
  have g: "get_current_mac scripted (arg_interface show_and_restore) ?w
     = (Inr (Some ''00:11:22:33:44:55''),
        (world0 [] (Malformed ''Expecting value''))\<lparr>commands := [[''ifconfig'', ''eth0'']]\<rparr>)"
    by (simp add: i get_current_mac_plain)
  from malformed_config_raises [OF h, of "''eth0''" "''00:11:22:33:44:55''" scripted show_and_restore] g
  have "main scripted show_and_restore ?w
     = (Inl (JSONDecodeError ''Expecting value''),
        (world0 [] (Malformed ''Expecting value''))\<lparr>commands := [[''ifconfig'', ''eth0'']]\<rparr>)"
    by blast
  with h show ?thesis by (simp add: world0_sel)
qed

lemma get_original_mac_frame:
  "config_file v = config_file w \<Longrightarrow> get_original_mac i v = get_original_mac i w"
  by (simp add: get_original_mac_def)

text \<open>The original address of a run, when the lookup in the store returns.\<close>

lemma remember_original_value:
  assumes "get_original_mac i w = Inr stored"
  shows "fst (remember_original i cur w) =
           Inr (case truthy stored of Some s \<Rightarrow> s | None \<Rightarrow> cur)"
proof (cases "config_file w")
  case Absent
  with assms show ?thesis
    by (auto simp: remember_original_def get_original_mac_def save_original_mac_Absent)
next
  case (Malformed e)
  with assms show ?thesis by (simp add: get_original_mac_def)
next
  case (Record c)
  show ?thesis
  proof (cases "c i")
    case None
    with Record assms show ?thesis
      by (auto simp: remember_original_def get_original_mac_def save_original_mac_new)
  next
    case (Some v)
    with Record assms show ?thesis
      by (cases "v = []")
         (auto simp: remember_original_def get_original_mac_def save_original_mac_present)
  qed
qed

lemma get_current_mac_lower:
  "get_current_mac scripted ''eth0'' (world0 [Exited 0 (Text ''ether 02:aa:aa:aa:aa:aa'')] f)
     = (Inr (Some ''02:aa:aa:aa:aa:aa''),
        (world0 [] f)\<lparr>commands := [[''ifconfig'', ''eth0'']]\<rparr>)"
  by (simp add: get_current_mac_def run_def world0_def re_search_lower del: re_search.simps)

text \<open>
  Claim C7. The flags are looked at after the preamble (Section 4.5 of the specification,
  lines 113 to 121 of the source); the runs that end in the preamble are those of claims
  C5 and C6. For every run with \<^verbatim>\<open>--show\<close>, with or without \<^verbatim>\<open>--restore\<close>: the only command
  run is the initial query, so the writer is never invoked and the operating system is in
  the state the query leaves; \<^verbatim>\<open>--restore\<close> makes no difference to the run; and when the
  initial read returns an address and the lookup in the store returns, the run ends
  normally, having printed as its last two lines the current address and the original
  address, which is the stored one when it is a non-empty string and the current one
  otherwise.
\<close>

theorem main_show:
  assumes "arg_show a"
  shows "commands (snd (main sys a w)) = commands w @ [[''ifconfig'', arg_interface a]]
     \<and> os (snd (main sys a w)) = snd (sys [''ifconfig'', arg_interface a] (os w))
     \<and> main sys (a\<lparr>arg_restore := r\<rparr>) w = main sys a w
     \<and> (\<forall>cur w1 stored.
           get_current_mac sys (arg_interface a) w = (Inr (Some cur), w1)
           \<and> get_original_mac (arg_interface a) w = Inr stored \<longrightarrow>
           main sys a w =
             (Inr (),
              py_print (''Original MAC for '' @ arg_interface a @ '': '' @
                          (case truthy stored of Some s \<Rightarrow> s | None \<Rightarrow> cur))
                (py_print (''Current MAC for '' @ arg_interface a @ '': '' @ cur)
                   (snd (remember_original (arg_interface a) cur w1)))))"
proof -
  have "main sys a w =
             (Inr (),
              py_print (''Original MAC for '' @ arg_interface a @ '': '' @
                          (case truthy stored of Some s \<Rightarrow> s | None \<Rightarrow> cur))
                (py_print (''Current MAC for '' @ arg_interface a @ '': '' @ cur)
                   (snd (remember_original (arg_interface a) cur w1))))"
    if g: "get_current_mac sys (arg_interface a) w = (Inr (Some cur), w1)"
      and p: "get_original_mac (arg_interface a) w = Inr stored" for cur w1 stored
  proof -
    from get_current_mac_frame [OF g] have "config_file w1 = config_file w" by simp
    from get_original_mac_frame [OF this] p
    have "get_original_mac (arg_interface a) w1 = Inr stored" by simp
    from remember_original_value [OF this, of cur]
    obtain w2 where ro: "remember_original (arg_interface a) cur w1 =
        (Inr (case truthy stored of Some s \<Rightarrow> s | None \<Rightarrow> cur), w2)"
      by (cases "remember_original (arg_interface a) cur w1") simp
    with main_Some [OF g] assms show ?thesis by (simp add: perform_show)
  qed
  with main_show_commands [OF assms] main_show_restore [OF assms] show ?thesis by blast
qed

text \<open>
  A run with both flags on an interface whose recorded original address differs from the
  current one: both are printed, the record is not touched, and only the query is run.
\<close>

theorem main_show_witness:
  "arg_show show_and_restore
   \<and> fst (main scripted show_and_restore
        (world0 [Exited 0 (Text ''ether 02:aa:aa:aa:aa:aa'')]
           (Record [''eth0'' \<mapsto> ''00:11:22:33:44:55''])))
       = Inr ()
   \<and> stdout (snd (main scripted show_and_restore
        (world0 [Exited 0 (Text ''ether 02:aa:aa:aa:aa:aa'')]
           (Record [''eth0'' \<mapsto> ''00:11:22:33:44:55'']))))
       = [''Current MAC for eth0: 02:aa:aa:aa:aa:aa'',
          ''Original MAC for eth0: 00:11:22:33:44:55'']
   \<and> commands (snd (main scripted show_and_restore
        (world0 [Exited 0 (Text ''ether 02:aa:aa:aa:aa:aa'')]
           (Record [''eth0'' \<mapsto> ''00:11:22:33:44:55'']))))
       = [[''ifconfig'', ''eth0'']]"
proof -
  let ?f = "Record [''eth0'' \<mapsto> ''00:11:22:33:44:55'']"
  let ?w = "world0 [Exited 0 (Text ''ether 02:aa:aa:aa:aa:aa'')] ?f"
  let ?w1 = "(world0 [] ?f)\<lparr>commands := [[''ifconfig'', ''eth0'']]\<rparr>"
  have h: "arg_show show_and_restore" by (simp add: show_and_restore_def)
  have i: "arg_interface show_and_restore = ''eth0''" by (simp add: show_and_restore_def)
  have g: "get_current_mac scripted (arg_interface show_and_restore) ?w
     = (Inr (Some ''02:aa:aa:aa:aa:aa''), ?w1)"
    by (simp add: i get_current_mac_lower)
  have p: "get_original_mac (arg_interface show_and_restore) ?w
     = Inr (Some ''00:11:22:33:44:55'')"
    by (simp add: i get_original_mac_def world0_sel)
  have ro: "snd (remember_original ''eth0'' ''02:aa:aa:aa:aa:aa'' ?w1) = ?w1"
    by (simp add: remember_original_def get_original_mac_def world0_sel)
  from main_show [OF h, of scripted ?w] g p
  have m: "main scripted show_and_restore ?w =
     (Inr (),
      py_print (''Original MAC for '' @ arg_interface show_and_restore @ '': '' @
                  (case truthy (Some ''00:11:22:33:44:55'') of Some s \<Rightarrow> s
                   | None \<Rightarrow> ''02:aa:aa:aa:aa:aa''))
        (py_print (''Current MAC for '' @ arg_interface show_and_restore @ '': '' @
                     ''02:aa:aa:aa:aa:aa'')
           (snd (remember_original (arg_interface show_and_restore)
                   ''02:aa:aa:aa:aa:aa'' ?w1))))"
    by blast
  show ?thesis unfolding m by (simp add: h i ro py_print_def world0_sel)
qed

end
